theory Spec2Isabelle
  imports Complex_Main "HOL-Library.Multiset"
begin

section \<open>Pilot data analyzer: data model\<close>

text \<open>
  The module \<^verbatim>\<open>data_analyzer.py\<close> reads a table of timestamped status messages,
  extracts outage intervals with a two-state scan, and derives availability, EPA
  compliance and duration statistics.

  Timestamps are pandas \<^verbatim>\<open>datetime64[ns]\<close> values: an integer count of nanoseconds.
  The difference of two timestamps is a timedelta, again in nanoseconds, and
  \<^verbatim>\<open>total_seconds()\<close> divides by \<open>10\<^sup>9\<close>. Python floats are idealised as reals.
\<close>

type_synonym timestamp = int
type_synonym timedelta = int

definition total_seconds :: "timedelta \<Rightarrow> real" where
  "total_seconds d = real_of_int d / 1000000000"

text \<open>The exceptions that the modelled code can raise.\<close>

datatype py_error =
    TypeError
  | IndexError
  | ZeroDivisionError
  | AttributeError
  | ReadError string

text \<open>
  A cell of the \<^verbatim>\<open>Message\<close> column: a string, a number, or a missing value (a blank
  cell, read as \<^verbatim>\<open>NaN\<close>). A number is kept as the text that \<^verbatim>\<open>str\<close> gives for it,
  which is all the analysis reads of it. \<^verbatim>\<open>str\<close> of a missing value is \<^verbatim>\<open>nan\<close>.
\<close>

datatype cell = Text string | Number string | NaN

fun py_str :: "cell \<Rightarrow> string" where
  "py_str (Text s) = s"
| "py_str (Number s) = s"
| "py_str NaN = ''nan''"

definition is_text :: "cell \<Rightarrow> bool" where
  "is_text c = (case c of Text s \<Rightarrow> True | Number s \<Rightarrow> False | NaN \<Rightarrow> False)"

text \<open>
  One row of the data frame, as the analysis reads it: the value of its \<^verbatim>\<open>Time\<close>
  column (after \<^verbatim>\<open>pd.to_datetime\<close>) and the cell of its \<^verbatim>\<open>Message\<close> column.
\<close>

record row =
  Time :: timestamp
  Message :: cell

text \<open>
  An outage dictionary. The keys \<^verbatim>\<open>start\<close>, \<^verbatim>\<open>end\<close>, \<^verbatim>\<open>duration\<close> and
  \<^verbatim>\<open>duration_minutes\<close> are written by both places that build one; the key
  \<^verbatim>\<open>ongoing\<close> is optional, so its field is an option (\<open>None\<close>: the key is absent).
  The key \<^verbatim>\<open>end\<close> is named \<open>end_time\<close> here, \<open>end\<close> being reserved.
\<close>

record outage =
  start :: timestamp
  end_time :: timestamp
  duration :: timedelta
  duration_minutes :: real
  ongoing :: "bool option"

section \<open>Strings\<close>

text \<open>\<^verbatim>\<open>str.isspace\<close> on the ASCII range, and \<^verbatim>\<open>str.strip()\<close>.\<close>

definition isspace :: "char \<Rightarrow> bool" where
  "isspace c = (c \<in> set [CHR 0x09, CHR 0x0A, CHR 0x0B, CHR 0x0C, CHR 0x0D,
                           CHR 0x1C, CHR 0x1D, CHR 0x1E, CHR 0x1F, CHR 0x20])"

definition strip :: "string \<Rightarrow> string" where
  "strip s = rev (dropWhile isspace (rev (dropWhile isspace s)))"

text \<open>\<^verbatim>\<open>s.startswith(sub)\<close> and the substring test \<^verbatim>\<open>sub in s\<close>.\<close>

definition startswith :: "string \<Rightarrow> string \<Rightarrow> bool" where
  "startswith s sub = (take (length sub) s = sub)"

fun str_contains :: "string \<Rightarrow> string \<Rightarrow> bool" where
  "str_contains sub [] = (sub = [])"
| "str_contains sub (c # cs) = (startswith (c # cs) sub \<or> str_contains sub cs)"

section \<open>Outage extraction\<close>

text \<open>
  The locals of \<^verbatim>\<open>identify_outages\<close> that the loop updates: \<^verbatim>\<open>outages\<close>,
  \<^verbatim>\<open>in_outage\<close> and \<^verbatim>\<open>outage_start\<close> (\<open>None\<close> until the first outage starts).
\<close>

type_synonym scan_state = "outage list \<times> bool \<times> timestamp option"

text \<open>
  One iteration of the loop over \<^verbatim>\<open>df.iterrows()\<close>. Subtracting \<^verbatim>\<open>None\<close> from a
  timestamp raises \<^verbatim>\<open>TypeError\<close>.
\<close>

fun scan_row :: "scan_state \<Rightarrow> row \<Rightarrow> py_error + scan_state" where
  "scan_row (outages, in_outage, outage_start) r =
     (let message = strip (py_str (Message r));
          timestamp = Time r
      in if str_contains ''Pilot Inactive'' message then
           (if \<not> in_outage then Inr (outages, True, Some timestamp)
            else Inr (outages, in_outage, outage_start))
         else if str_contains ''Pilot Active'' message then
           (if in_outage then
              (case outage_start of
                 None \<Rightarrow> Inl TypeError
               | Some st \<Rightarrow>
                   (let outage_end = timestamp;
                        duration = outage_end - st;
                        duration_minutes = total_seconds duration / 60
                    in Inr (outages @
                            [\<lparr>start = st, end_time = outage_end, duration = duration,
                              duration_minutes = duration_minutes, ongoing = None\<rparr>],
                            False, outage_start)))
            else Inr (outages, in_outage, outage_start))
         else Inr (outages, in_outage, outage_start))"

fun scan_rows :: "scan_state \<Rightarrow> row list \<Rightarrow> py_error + scan_state" where
  "scan_rows s [] = Inr s"
| "scan_rows s (r # rest) =
     (case scan_row s r of Inl e \<Rightarrow> Inl e | Inr s' \<Rightarrow> scan_rows s' rest)"

text \<open>
  The step after the loop: an outage still open is closed at the \<^verbatim>\<open>Time\<close> of the last
  row, \<^verbatim>\<open>df[time_col].iloc[-1]\<close>, which raises \<^verbatim>\<open>IndexError\<close> on an empty frame.
  A timestamp is truthy, so \<^verbatim>\<open>in_outage and outage_start\<close> fails only on \<^verbatim>\<open>None\<close>.
\<close>

fun finalize :: "row list \<Rightarrow> scan_state \<Rightarrow> py_error + outage list" where
  "finalize df (outages, in_outage, outage_start) =
     (if in_outage \<and> outage_start \<noteq> None then
        (case df of
           [] \<Rightarrow> Inl IndexError
         | _ # _ \<Rightarrow>
             (let outage_end = Time (last df);
                  duration = outage_end - the outage_start;
                  duration_minutes = total_seconds duration / 60
              in Inr (outages @
                      [\<lparr>start = the outage_start, end_time = outage_end, duration = duration,
                        duration_minutes = duration_minutes, ongoing = Some True\<rparr>])))
      else Inr outages)"

definition identify_outages :: "row list \<Rightarrow> py_error + outage list" where
  "identify_outages df =
     (case scan_rows ([], False, None) df of
        Inl e \<Rightarrow> Inl e
      | Inr s \<Rightarrow> finalize df s)"

section \<open>Formatted messages\<close>

text \<open>
  The messages are f-strings. A message is kept as the sequence of its literal pieces and
  interpolated values, each value with its format: \<^verbatim>\<open>{n}\<close> for an integer,
  \<^verbatim>\<open>{x:.2f}\<close> and \<^verbatim>\<open>{x}\<close> for a float, \<^verbatim>\<open>{list(df.columns)}\<close> for the column
  names, and \<^verbatim>\<open>str(e)\<close> for an exception.
\<close>

datatype fpart =
    Lit string
  | FInt int
  | FFloat2 real
  | FFloat real
  | FColumns "string list"
  | FExc py_error

type_synonym fstring = "fpart list"

section \<open>Availability\<close>

record month_data =
  first_day :: timestamp
  last_day :: timestamp

text \<open>Float division: \<^verbatim>\<open>a / b\<close> raises \<^verbatim>\<open>ZeroDivisionError\<close> when \<open>b\<close> is zero.\<close>

definition truediv :: "real \<Rightarrow> real \<Rightarrow> py_error + real" where
  "truediv a b = (if b = 0 then Inl ZeroDivisionError else Inr (a / b))"

text \<open>The body of the \<^verbatim>\<open>try\<close> block of \<^verbatim>\<open>calculate_availability\<close>.\<close>

definition calculate_availability_try :: "row list \<Rightarrow> outage list \<Rightarrow> month_data \<Rightarrow> py_error + real" where
  "calculate_availability_try df outs md =
     (let total_minutes = total_seconds (last_day md - first_day md) / 60;
          total_outage_minutes = sum_list (map duration_minutes outs)
      in case truediv (total_minutes - total_outage_minutes) total_minutes of
           Inl e \<Rightarrow> Inl e
         | Inr q \<Rightarrow> Inr (q * 100))"

text \<open>The \<^verbatim>\<open>except Exception\<close> clause returns \<^verbatim>\<open>0.0\<close>.\<close>

definition calculate_availability :: "row list \<Rightarrow> outage list \<Rightarrow> month_data \<Rightarrow> real" where
  "calculate_availability df outs md =
     (case calculate_availability_try df outs md of
        Inl e \<Rightarrow> 0
      | Inr availability_percent \<Rightarrow> availability_percent)"

section \<open>EPA compliance\<close>

definition MAX_OUTAGES_PER_MONTH :: int where
  "MAX_OUTAGES_PER_MONTH = 10"

definition MAX_OUTAGE_DURATION_MINUTES :: int where
  "MAX_OUTAGE_DURATION_MINUTES = 60"

definition MIN_AVAILABILITY_PERCENT :: real where
  "MIN_AVAILABILITY_PERCENT = 99.0"

record compliance =
  compliant :: bool
  status :: string
  issues :: "fstring list"

definition check_epa_compliance :: "outage list \<Rightarrow> real \<Rightarrow> compliance" where
  "check_epa_compliance outs availability_percent =
     (let issues0 = [];
          issues1 =
            (if int (length outs) > MAX_OUTAGES_PER_MONTH then
               issues0 @ [[Lit ''Exceeded maximum outages: '', FInt (int (length outs)),
                           Lit '' > '', FInt MAX_OUTAGES_PER_MONTH]]
             else issues0);
          long_outages =
            filter (\<lambda>x. duration_minutes x > real_of_int MAX_OUTAGE_DURATION_MINUTES) outs;
          issues2 =
            (if long_outages \<noteq> [] then
               issues1 @ [[Lit ''Found '', FInt (int (length long_outages)),
                           Lit '' outage(s) exceeding '', FInt MAX_OUTAGE_DURATION_MINUTES,
                           Lit '' minutes'']]
             else issues1);
          issues3 =
            (if availability_percent < MIN_AVAILABILITY_PERCENT then
               issues2 @ [[Lit ''Availability below minimum: '', FFloat2 availability_percent,
                           Lit ''% < '', FFloat MIN_AVAILABILITY_PERCENT, Lit ''%'']]
             else issues2);
          is_compliant = (length issues3 = 0);
          status = (if is_compliant then ''COMPLIANT'' else ''NON-COMPLIANT'')
      in \<lparr>compliant = is_compliant, status = status, issues = issues3\<rparr>)"

section \<open>Statistics\<close>

text \<open>
  The numpy reductions on a non-empty list of durations: arithmetic mean, median (the
  mean of the two middle values for an even count), maximum, minimum and the population
  standard deviation.
\<close>

definition np_mean :: "real list \<Rightarrow> real" where
  "np_mean xs = sum_list xs / real (length xs)"

definition np_median :: "real list \<Rightarrow> real" where
  "np_median xs =
     (let s = sort xs; n = length s
      in if even n then (s ! (n div 2 - 1) + s ! (n div 2)) / 2 else s ! (n div 2))"

definition np_max :: "real list \<Rightarrow> real" where
  "np_max xs = fold max (tl xs) (hd xs)"

definition np_min :: "real list \<Rightarrow> real" where
  "np_min xs = fold min (tl xs) (hd xs)"

definition np_std :: "real list \<Rightarrow> real" where
  "np_std xs = sqrt (np_mean (map (\<lambda>x. (x - np_mean xs)\<^sup>2) xs))"

record statistics =
  mean_duration_minutes :: real
  median_duration_minutes :: real
  max_duration_minutes :: real
  min_duration_minutes :: real
  std_duration_minutes :: real

definition calculate_statistics :: "outage list \<Rightarrow> statistics" where
  "calculate_statistics outs =
     (if outs = [] then
        \<lparr>mean_duration_minutes = 0, median_duration_minutes = 0, max_duration_minutes = 0,
         min_duration_minutes = 0, std_duration_minutes = 0\<rparr>
      else
        (let durations = map duration_minutes outs
         in \<lparr>mean_duration_minutes = np_mean durations,
             median_duration_minutes = np_median durations,
             max_duration_minutes = np_max durations,
             min_duration_minutes = np_min durations,
             std_duration_minutes = np_std durations\<rparr>))"

section \<open>The analysis\<close>

text \<open>
  A data frame: its column names and its rows. The rows are read only after both
  required columns are known to be present.
\<close>

record dataframe =
  columns :: "string list"
  rows :: "row list"

record summary =
  total_outages :: nat
  total_outage_minutes :: real
  availability_percent :: real
  epa_compliance :: string
  compliance_details :: compliance
  statistics :: statistics

record 'd analysis =
  data :: "row list"
  outages :: "outage list"
  summary :: summary
  device :: 'd
  month_data :: month_data

text \<open>
  A failure dictionary: \<^verbatim>\<open>error\<close>, and \<^verbatim>\<open>details\<close> (the traceback of the exception
  caught) only when it comes from the \<^verbatim>\<open>except\<close> clause.
\<close>

record failure =
  error :: fstring
  details :: "py_error option"

datatype 'd analysis_result = Success "'d analysis" | Failure failure

text \<open>
  The \<^verbatim>\<open>.str\<close> accessor of a column, as \<^verbatim>\<open>df['Message'].str\<close> takes it of the
  filtered frame. The library raises \<^verbatim>\<open>AttributeError\<close> unless the column holds
  strings. A column read without any string has a numeric dtype, which every frame derived
  from it keeps, and is refused whatever rows are left. A column read with some string, or
  with no row at all, has dtype \<^verbatim>\<open>object\<close>; then the cells left decide, missing values
  skipped: it is refused when numbers are left and no string. The first argument is the
  column as read, the second the column of the frame at hand.
\<close>

definition str_accessor :: "cell list \<Rightarrow> cell list \<Rightarrow> py_error + unit" where
  "str_accessor column_read column_left =
     (if column_read \<noteq> [] \<and> \<not> (\<exists>c \<in> set column_read. is_text c) then Inl AttributeError
      else if (\<exists>c \<in> set column_left. c \<noteq> NaN) \<and> \<not> (\<exists>c \<in> set column_left. is_text c)
           then Inl AttributeError
      else Inr ())"

text \<open>
  \<^verbatim>\<open>analyze_data\<close>. Reading the file is outside the module: \<open>loaded\<close> is the outcome
  of the read, \<open>Inl e\<close> when \<^verbatim>\<open>pd.read_excel\<close> raised \<open>e\<close>, \<open>Inr None\<close> when
  \<^verbatim>\<open>load_data\<close> returned \<^verbatim>\<open>None\<close>. \<^verbatim>\<open>DataFrame.sort_values\<close> is the library's and
  is the parameter \<open>sort_values\<close>, applied to the rows (the column is always
  \<^verbatim>\<open>'Time'\<close>, the sort kind the default). The rows carry parsed timestamps, so
  \<^verbatim>\<open>parse_timestamps\<close> has nothing left to do; a column that does not parse is outside
  this model. The line that builds \<^verbatim>\<open>pilot_messages\<close> takes the \<^verbatim>\<open>.str\<close> accessor of
  the \<^verbatim>\<open>Message\<close> column of the filtered frame, which can raise; the frame it builds
  is only counted for a diagnostic line. Any exception inside the \<^verbatim>\<open>try\<close> block ends in
  the \<^verbatim>\<open>except\<close> clause, which returns \<^verbatim>\<open>str(e)\<close> and the traceback.
\<close>

definition analyze_data ::
  "(row list \<Rightarrow> row list) \<Rightarrow> py_error + dataframe option \<Rightarrow> 'd \<Rightarrow> month_data \<Rightarrow> 'd analysis_result" where
  \<open>analyze_data sort_values loaded dev md =
     (case loaded of
        Inl e \<Rightarrow> Failure \<lparr>error = [FExc e], details = Some e\<rparr>
      | Inr None \<Rightarrow> Failure \<lparr>error = [Lit ''Failed to load data file''], details = None\<rparr>
      | Inr (Some df) \<Rightarrow>
          if ''Time'' \<notin> set (columns df) \<or> ''Message'' \<notin> set (columns df) then
            Failure \<lparr>error = [Lit ''Required columns not found. Expected "Time" and "Message", got: '',
                               FColumns (columns df)],
                     details = None\<rparr>
          else
            (let df1 = sort_values (rows df);
                 df2 = filter (\<lambda>r. Time r \<ge> first_day md \<and> Time r \<le> last_day md) df1
             in case str_accessor (map Message (rows df)) (map Message df2) of
                  Inl e \<Rightarrow> Failure \<lparr>error = [FExc e], details = Some e\<rparr>
                | Inr _ \<Rightarrow>
                    (case identify_outages df2 of
                       Inl e \<Rightarrow> Failure \<lparr>error = [FExc e], details = Some e\<rparr>
                     | Inr outs \<Rightarrow>
                         (let availability = calculate_availability df2 outs md;
                              compliance = check_epa_compliance outs availability;
                              stats = calculate_statistics outs;
                              summary =
                                \<lparr>total_outages = length outs,
                                 total_outage_minutes = sum_list (map duration_minutes outs),
                                 availability_percent = availability,
                                 epa_compliance = status compliance,
                                 compliance_details = compliance,
                                 statistics = stats\<rparr>
                          in Success \<lparr>data = df2, outages = outs, summary = summary,
                                       device = dev, month_data = md\<rparr>))))\<close>

section \<open>The contracts in the words of the specification\<close>

text \<open>
  The span of the reporting window in minutes, and the availability contract: the
  percentage of the window not covered by outages. The quotient has no value for a window
  of zero minutes.
\<close>

definition window_total_minutes :: "month_data \<Rightarrow> real" where
  "window_total_minutes md = total_seconds (last_day md - first_day md) / 60"

definition availability_contract :: "real \<Rightarrow> real \<Rightarrow> real option" where
  "availability_contract window_minutes outage_minutes =
     (if window_minutes = 0 then None
      else Some (((window_minutes - outage_minutes) / window_minutes) * 100))"

text \<open>
  The three threshold rules, each with the message of its violation: more than 10
  outages, some outage longer than 60 minutes, availability below 99.0 percent.
\<close>

definition count_rule :: "outage list \<Rightarrow> fstring list" where
  "count_rule outs =
     (if length outs > 10 then
        [[Lit ''Exceeded maximum outages: '', FInt (int (length outs)), Lit '' > '', FInt 10]]
      else [])"

definition duration_rule :: "outage list \<Rightarrow> fstring list" where
  "duration_rule outs =
     (if \<exists>x \<in> set outs. duration_minutes x > 60 then
        [[Lit ''Found '', FInt (int (length (filter (\<lambda>x. duration_minutes x > 60) outs))),
          Lit '' outage(s) exceeding '', FInt 60, Lit '' minutes'']]
      else [])"

definition availability_rule :: "real \<Rightarrow> fstring list" where
  "availability_rule a =
     (if a < 99 then
        [[Lit ''Availability below minimum: '', FFloat2 a, Lit ''% < '', FFloat 99, Lit ''%'']]
      else [])"

section \<open>Sorting and the reporting window\<close>

text \<open>
  What the library promises of \<^verbatim>\<open>sort_values\<close> with the default sort kind: the rows
  come back in ascending order of the key, none lost and none added. The default kind,
  \<^verbatim>\<open>quicksort\<close>, is documented as not stable, so nothing is promised about rows
  with equal keys.
\<close>

definition sorts_ascending :: "(row list \<Rightarrow> row list) \<Rightarrow> bool" where
  "sorts_ascending sort_values =
     (\<forall>rs. sorted (map Time (sort_values rs)) \<and> mset (sort_values rs) = mset rs)"

text \<open>
  A sort that keeps that promise, an insertion sort by \<^verbatim>\<open>Time\<close>. It stands for the
  library's sort on frames whose \<^verbatim>\<open>Time\<close> values are all distinct, where every sort
  that keeps the promise returns the same rows in the same order.
\<close>

definition stable_sort :: "row list \<Rightarrow> row list" where
  "stable_sort rs = sort_key Time rs"

text \<open>The rows of the reporting window, both ends included.\<close>

definition in_window :: "month_data \<Rightarrow> row \<Rightarrow> bool" where
  "in_window md r = (Time r \<ge> first_day md \<and> Time r \<le> last_day md)"

section \<open>Invariants of the scan\<close>

text \<open>An outage whose fields agree: it ends no earlier than it starts, and both durations
  are computed from its end points.\<close>

definition well_timed :: "outage \<Rightarrow> bool" where
  "well_timed x = (start x \<le> end_time x \<and> duration x = end_time x - start x
      \<and> duration_minutes x = total_seconds (end_time x - start x) / 60)"

text \<open>
  The invariant of the loop on rows in ascending order, \<open>t\<close> being the \<^verbatim>\<open>Time\<close> of the
  last row read: the outages closed so far follow one another and end by \<open>t\<close>, and an open
  outage started after all of them, no later than \<open>t\<close>.
\<close>

fun scan_inv :: "timestamp \<Rightarrow> scan_state \<Rightarrow> bool" where
  "scan_inv t (outs, io, os) =
     (sorted_wrt (\<lambda>a b. end_time a \<le> start b) outs
      \<and> (\<forall>x \<in> set outs. well_timed x \<and> end_time x \<le> t)
      \<and> (io \<longrightarrow> (\<exists>st. os = Some st \<and> st \<le> t
             \<and> (\<forall>x \<in> set outs. end_time x \<le> st))))"

text \<open>
  The invariant of the loop on rows in any order: an open outage has a start, and an
  outage closed by the loop has no key \<^verbatim>\<open>ongoing\<close> and durations computed from its
  end points.
\<close>

definition closed_outage :: "outage \<Rightarrow> bool" where
  "closed_outage x = (ongoing x = None \<and> duration x = end_time x - start x
      \<and> duration_minutes x = total_seconds (duration x) / 60)"

fun scan_ok :: "scan_state \<Rightarrow> bool" where
  "scan_ok (outs, io, os) = ((io \<longrightarrow> os \<noteq> None) \<and> (\<forall>x \<in> set outs. closed_outage x))"

section \<open>Substrings and stripping\<close>

lemma str_contains_iff: "str_contains sub s \<longleftrightarrow> (\<exists>p q. s = p @ sub @ q)"
proof (induction s)
  case Nil
  then show ?case by auto
next
  case (Cons c cs)
  have "startswith (c # cs) sub \<longleftrightarrow> (\<exists>q. c # cs = sub @ q)"
    unfolding startswith_def
    by (metis append_eq_conv_conj)
  moreover have "(\<exists>p q. c # cs = p @ sub @ q) \<longleftrightarrow> (\<exists>q. c # cs = sub @ q) \<or> (\<exists>p q. cs = p @ sub @ q)"
  proof
    assume "\<exists>p q. c # cs = p @ sub @ q"
    then obtain p q where pq: "c # cs = p @ sub @ q" by blast
    show "(\<exists>q. c # cs = sub @ q) \<or> (\<exists>p q. cs = p @ sub @ q)"
    proof (cases p)
      case Nil
      with pq show ?thesis by auto
    next
      case (Cons a p')
      with pq have "cs = p' @ sub @ q" by simp
      then show ?thesis by blast
    qed
  next
    assume "(\<exists>q. c # cs = sub @ q) \<or> (\<exists>p q. cs = p @ sub @ q)"
    then show "\<exists>p q. c # cs = p @ sub @ q"
    proof
      assume "\<exists>q. c # cs = sub @ q"
      then obtain q where "c # cs = [] @ sub @ q" by auto
      then show ?thesis by blast
    next
      assume "\<exists>p q. cs = p @ sub @ q"
      then obtain p q where "c # cs = (c # p) @ sub @ q" by auto
      then show ?thesis by blast
    qed
  qed
  ultimately show ?case using Cons.IH by simp
qed

lemma strip_infix: "\<exists>a b. s = a @ strip s @ b"
proof -
  have 1: "s = takeWhile isspace s @ dropWhile isspace s" by simp
  define m where "m = dropWhile isspace s"
  have "rev m = takeWhile isspace (rev m) @ dropWhile isspace (rev m)" by simp
  then have "m = rev (dropWhile isspace (rev m)) @ rev (takeWhile isspace (rev m))"
    by (metis rev_append rev_rev_ident)
  then have "m = strip s @ rev (takeWhile isspace (rev m))"
    by (simp add: strip_def m_def)
  with 1 show ?thesis unfolding m_def by metis
qed

lemma str_contains_strip: "str_contains sub (strip s) \<Longrightarrow> str_contains sub s"
proof -
  assume "str_contains sub (strip s)"
  then obtain p q where pq: "strip s = p @ sub @ q" unfolding str_contains_iff by blast
  obtain a b where "s = a @ strip s @ b" using strip_infix by blast
  with pq have "s = (a @ p) @ sub @ (q @ b)" by simp
  then show ?thesis unfolding str_contains_iff by blast
qed

section \<open>The scan on rows in any order\<close>

lemma scan_row_ok:
  assumes "scan_ok s"
  shows "\<exists>s'. scan_row s r = Inr s' \<and> scan_ok s'"
proof -
  obtain outs io os where s: "s = (outs, io, os)" by (cases s)
  show ?thesis
  proof (cases "io")
    case True
    with assms obtain st where "os = Some st" unfolding s by auto
    with True assms show ?thesis unfolding s by (auto simp: Let_def closed_outage_def)
  next
    case False
    with assms show ?thesis unfolding s by (auto simp: Let_def)
  qed
qed

lemma scan_rows_ok:
  assumes "scan_ok s"
  shows "\<exists>s'. scan_rows s df = Inr s' \<and> scan_ok s'"
  using assms
proof (induction df arbitrary: s)
  case Nil
  then show ?case by simp
next
  case (Cons r rest)
  from scan_row_ok[OF Cons.prems] obtain s1 where s1: "scan_row s r = Inr s1" "scan_ok s1"
    by blast
  from Cons.IH[OF s1(2)] s1(1) show ?case by simp
qed

lemma scan_row_quiet:
  assumes "\<not> str_contains ''Pilot Inactive'' (strip (py_str (Message r)))"
    and "\<not> str_contains ''Pilot Active'' (strip (py_str (Message r)))"
  shows "scan_row s r = Inr s"
  using assms by (cases s) simp

lemma scan_rows_quiet:
  assumes "\<forall>r \<in> set df. \<not> str_contains ''Pilot Inactive'' (strip (py_str (Message r)))
              \<and> \<not> str_contains ''Pilot Active'' (strip (py_str (Message r)))"
  shows "scan_rows s df = Inr s"
  using assms by (induction df) (simp_all add: scan_row_quiet)

lemma identify_outages_quiet:
  assumes "\<forall>r \<in> set df. \<not> str_contains ''Pilot Inactive'' (py_str (Message r))
              \<and> \<not> str_contains ''Pilot Active'' (py_str (Message r))"
  shows "identify_outages df = Inr []"
proof -
  from assms have "\<forall>r \<in> set df. \<not> str_contains ''Pilot Inactive'' (strip (py_str (Message r)))
              \<and> \<not> str_contains ''Pilot Active'' (strip (py_str (Message r)))"
    using str_contains_strip by blast
  then have "scan_rows ([], False, None) df = Inr ([], False, None)"
    by (rule scan_rows_quiet)
  then show ?thesis by (simp add: identify_outages_def)
qed

section \<open>The scan on ascending rows\<close>

lemma scan_row_inv:
  assumes "scan_inv t s" and "t \<le> Time r"
  shows "\<exists>s'. scan_row s r = Inr s' \<and> scan_inv (Time r) s'"
proof -
  obtain outs io os where s: "s = (outs, io, os)" by (cases s)
  from assms(1) have srt: "sorted_wrt (\<lambda>a b. end_time a \<le> start b) outs"
    and els: "\<forall>x \<in> set outs. well_timed x \<and> end_time x \<le> t"
    and opn: "io \<longrightarrow> (\<exists>st. os = Some st \<and> st \<le> t \<and> (\<forall>x \<in> set outs. end_time x \<le> st))"
    unfolding s by simp_all
  from els assms(2) have els': "\<forall>x \<in> set outs. well_timed x \<and> end_time x \<le> Time r"
    by fastforce
  show ?thesis
  proof (cases "str_contains ''Pilot Inactive'' (strip (py_str (Message r)))")
    case inactive: True
    show ?thesis
    proof (cases io)
      case True
      with opn obtain st where "os = Some st" "st \<le> t" "\<forall>x \<in> set outs. end_time x \<le> st"
        by blast
      with inactive True srt els' assms(2) show ?thesis unfolding s by simp
    next
      case False
      with inactive srt els' show ?thesis unfolding s by simp
    qed
  next
    case nin: False
    show ?thesis
    proof (cases "str_contains ''Pilot Active'' (strip (py_str (Message r))) \<and> io")
      case True
      with opn obtain st where st: "os = Some st" "st \<le> t" "\<forall>x \<in> set outs. end_time x \<le> st"
        by blast
      define cl where "cl = \<lparr>start = st, end_time = Time r, duration = Time r - st,
               duration_minutes = total_seconds (Time r - st) / 60, ongoing = None\<rparr>"
      have "scan_row s r = Inr (outs @ [cl], False, os)"
        using nin True st(1) unfolding s cl_def by (simp add: Let_def)
      moreover have "scan_inv (Time r) (outs @ [cl], False, os)"
        using srt els' st assms(2) unfolding cl_def
        by (simp add: sorted_wrt_append well_timed_def)
      ultimately show ?thesis by simp
    next
      case False
      then have "scan_row s r = Inr s" using nin unfolding s by auto
      moreover have "scan_inv (Time r) s"
      proof (cases io)
        case True
        with opn obtain st where "os = Some st" "st \<le> t" "\<forall>x \<in> set outs. end_time x \<le> st"
          by blast
        with True srt els' assms(2) show ?thesis unfolding s by simp
      next
        case False
        with srt els' show ?thesis unfolding s by simp
      qed
      ultimately show ?thesis by simp
    qed
  qed
qed

lemma scan_rows_inv:
  assumes "scan_inv t s" and "sorted (map Time df)" and "\<forall>r \<in> set df. t \<le> Time r"
  shows "\<exists>s'. scan_rows s df = Inr s' \<and> scan_inv (if df = [] then t else Time (last df)) s'"
  using assms
proof (induction df arbitrary: s t)
  case Nil
  then show ?case by simp
next
  case (Cons r rest)
  from Cons.prems have "t \<le> Time r" by simp
  with Cons.prems(1) obtain s1 where s1: "scan_row s r = Inr s1" "scan_inv (Time r) s1"
    using scan_row_inv by blast
  from Cons.prems have "sorted (map Time rest)" "\<forall>x \<in> set rest. Time r \<le> Time x" by auto
  from Cons.IH[OF s1(2) this] obtain s' where
    "scan_rows s1 rest = Inr s'" "scan_inv (if rest = [] then Time r else Time (last rest)) s'"
    by blast
  with s1 show ?case by auto
qed

lemma identify_outages_chain:
  assumes "sorted (map Time df)"
  shows "\<exists>outs. identify_outages df = Inr outs
           \<and> sorted_wrt (\<lambda>a b. end_time a \<le> start b) outs
           \<and> (\<forall>x \<in> set outs. well_timed x)"
proof -
  define t where "t = (if df = [] then 0 else Time (hd df))"
  have low: "\<forall>r \<in> set df. t \<le> Time r"
  proof (cases df)
    case Nil
    then show ?thesis by simp
  next
    case (Cons r rest)
    with assms show ?thesis unfolding t_def by auto
  qed
  have "scan_inv t ([], False, None)" by simp
  from scan_rows_inv[OF this assms low] obtain s' where
    run: "scan_rows ([], False, None) df = Inr s'"
    and inv: "scan_inv (if df = [] then t else Time (last df)) s'"
    by blast
  obtain outs io os where s': "s' = (outs, io, os)" by (cases s')
  from inv have srt: "sorted_wrt (\<lambda>a b. end_time a \<le> start b) outs"
    and els: "\<forall>x \<in> set outs. well_timed x"
    and opn: "io \<longrightarrow> (\<exists>st. os = Some st \<and> st \<le> (if df = [] then t else Time (last df))
                  \<and> (\<forall>x \<in> set outs. end_time x \<le> st))"
    unfolding s' by simp_all
  show ?thesis
  proof (cases io)
    case False
    with run s' have "identify_outages df = Inr outs"
      by (simp add: identify_outages_def)
    with srt els show ?thesis by simp
  next
    case True
    with run s' have ne: "df \<noteq> []" by auto
    from True opn ne obtain st where st: "os = Some st" "st \<le> Time (last df)"
      "\<forall>x \<in> set outs. end_time x \<le> st" by auto
    define final where "final = \<lparr>start = st, end_time = Time (last df),
        duration = Time (last df) - st,
        duration_minutes = total_seconds (Time (last df) - st) / 60, ongoing = Some True\<rparr>"
    from ne obtain r rest where "df = r # rest" by (cases df) auto
    with run s' True st(1) have "identify_outages df = Inr (outs @ [final])"
      unfolding final_def by (simp add: identify_outages_def Let_def)
    moreover have "sorted_wrt (\<lambda>a b. end_time a \<le> start b) (outs @ [final])"
      using srt st(3) unfolding final_def by (simp add: sorted_wrt_append)
    moreover have "\<forall>x \<in> set (outs @ [final]). well_timed x"
      using els st(2) unfolding final_def by (simp add: well_timed_def)
    ultimately show ?thesis by blast
  qed
qed

lemma scan_rows_init_ok:
  "\<exists>ended io os. scan_rows ([], False, None) df = Inr (ended, io, os)
      \<and> (io \<longrightarrow> os \<noteq> None) \<and> (\<forall>x \<in> set ended. closed_outage x)"
proof -
  have "scan_ok ([], False, None)" by simp
  from scan_rows_ok[OF this] obtain s' where s': "scan_rows ([], False, None) df = Inr s'" "scan_ok s'"
    by blast
  obtain ended io os where "s' = (ended, io, os)" by (cases s')
  with s' show ?thesis by auto
qed

lemma scan_rows_example:
  "scan_rows ([], False, None) [\<lparr>Time = 0, Message = Text ''Pilot Inactive''\<rparr>,
       \<lparr>Time = 600000000000, Message = Text ''Pilot Active''\<rparr>,
       \<lparr>Time = 700000000000, Message = Text ''Pilot Inactive''\<rparr>,
       \<lparr>Time = 900000000000, Message = Text ''Heartbeat''\<rparr>]
   = Inr ([\<lparr>start = 0, end_time = 600000000000, duration = 600000000000,
            duration_minutes = 10, ongoing = None\<rparr>], True, Some 700000000000)"
  by (simp add: startswith_def strip_def isspace_def total_seconds_def)

section \<open>Outage intervals\<close>

text \<open>
  Claim C2. On rows in ascending order of \<^verbatim>\<open>Time\<close>, \<^verbatim>\<open>identify_outages\<close> returns, and
  its intervals do not overlap (an earlier one ends no later than a later one starts),
  come in ascending order of their starts, and each has a duration equal to its end minus
  its start, which is not negative.
\<close>

theorem identify_outages_disjoint_ascending:
  assumes "sorted (map Time df)"
  shows "\<exists>outs. identify_outages df = Inr outs
           \<and> (\<forall>i j. i < j \<and> j < length outs \<longrightarrow> end_time (outs ! i) \<le> start (outs ! j))
           \<and> sorted (map start outs)
           \<and> (\<forall>x \<in> set outs. duration x = end_time x - start x \<and> 0 \<le> duration x
                  \<and> duration_minutes x = total_seconds (duration x) / 60
                  \<and> 0 \<le> duration_minutes x)"
proof -
  from identify_outages_chain[OF assms] obtain outs where
    res: "identify_outages df = Inr outs"
    and srt: "sorted_wrt (\<lambda>a b. end_time a \<le> start b) outs"
    and els: "\<forall>x \<in> set outs. well_timed x"
    by blast
  from srt have apart: "\<forall>i j. i < j \<and> j < length outs \<longrightarrow> end_time (outs ! i) \<le> start (outs ! j)"
    by (simp add: sorted_wrt_iff_nth_less)
  have "sorted_wrt (\<lambda>a b. start a \<le> start b) outs"
  proof (rule sorted_wrt_mono_rel[OF _ srt])
    fix a b
    assume "a \<in> set outs" "b \<in> set outs" "end_time a \<le> start b"
    with els show "start a \<le> start b" unfolding well_timed_def by fastforce
  qed
  then have asc: "sorted (map start outs)" by (simp add: sorted_map)
  have fields: "\<forall>x \<in> set outs. duration x = end_time x - start x \<and> 0 \<le> duration x
                  \<and> duration_minutes x = total_seconds (duration x) / 60
                  \<and> 0 \<le> duration_minutes x"
    using els unfolding well_timed_def total_seconds_def by auto
  from res apart asc fields show ?thesis by blast
qed

theorem identify_outages_disjoint_ascending_witness:
  "sorted (map Time [\<lparr>Time = 0, Message = Text ''Pilot Inactive''\<rparr>,
       \<lparr>Time = 600000000000, Message = Text ''Pilot Active''\<rparr>,
       \<lparr>Time = 700000000000, Message = Text ''Pilot Inactive''\<rparr>,
       \<lparr>Time = 900000000000, Message = Text ''Heartbeat''\<rparr>])
   \<and> (\<exists>outs. identify_outages [\<lparr>Time = 0, Message = Text ''Pilot Inactive''\<rparr>,
       \<lparr>Time = 600000000000, Message = Text ''Pilot Active''\<rparr>,
       \<lparr>Time = 700000000000, Message = Text ''Pilot Inactive''\<rparr>,
       \<lparr>Time = 900000000000, Message = Text ''Heartbeat''\<rparr>] = Inr outs
           \<and> (\<forall>i j. i < j \<and> j < length outs \<longrightarrow> end_time (outs ! i) \<le> start (outs ! j))
           \<and> sorted (map start outs)
           \<and> (\<forall>x \<in> set outs. duration x = end_time x - start x \<and> 0 \<le> duration x
                  \<and> duration_minutes x = total_seconds (duration x) / 60
                  \<and> 0 \<le> duration_minutes x))"
proof -
  have h: "sorted (map Time [\<lparr>Time = 0, Message = Text ''Pilot Inactive''\<rparr>,
       \<lparr>Time = 600000000000, Message = Text ''Pilot Active''\<rparr>,
       \<lparr>Time = 700000000000, Message = Text ''Pilot Inactive''\<rparr>,
       \<lparr>Time = 900000000000, Message = Text ''Heartbeat''\<rparr>])"
    by simp
  from h identify_outages_disjoint_ascending[OF h] show ?thesis by (rule conjI)
qed

text \<open>
  Claim C3. When the loop over a non-empty frame ends with \<^verbatim>\<open>in_outage\<close> set,
  \<^verbatim>\<open>identify_outages\<close> returns the outages the loop closed followed by one more
  interval, from the pending start to the \<^verbatim>\<open>Time\<close> of the last row, with
  \<^verbatim>\<open>ongoing\<close> true; none of the others has that key. On an empty frame it returns the
  empty list.
\<close>

theorem identify_outages_final_interval:
  "(df \<noteq> [] \<and> scan_rows ([], False, None) df = Inr (ended, True, os) \<longrightarrow>
      (\<exists>st. os = Some st
         \<and> identify_outages df =
             Inr (ended @ [\<lparr>start = st, end_time = Time (last df),
                              duration = Time (last df) - st,
                              duration_minutes = total_seconds (Time (last df) - st) / 60,
                              ongoing = Some True\<rparr>])
         \<and> (\<forall>x \<in> set ended. ongoing x = None)))
   \<and> identify_outages [] = Inr []"
proof (intro conjI impI)
  assume a: "df \<noteq> [] \<and> scan_rows ([], False, None) df = Inr (ended, True, os)"
  from scan_rows_init_ok[of df] a obtain st where st: "os = Some st"
    and cl: "\<forall>x \<in> set ended. closed_outage x" by auto
  from a obtain r rest where "df = r # rest" by (cases df) auto
  with a st have "identify_outages df =
             Inr (ended @ [\<lparr>start = st, end_time = Time (last df),
                              duration = Time (last df) - st,
                              duration_minutes = total_seconds (Time (last df) - st) / 60,
                              ongoing = Some True\<rparr>])"
    by (simp add: identify_outages_def Let_def)
  with st cl show "\<exists>st. os = Some st
         \<and> identify_outages df =
             Inr (ended @ [\<lparr>start = st, end_time = Time (last df),
                              duration = Time (last df) - st,
                              duration_minutes = total_seconds (Time (last df) - st) / 60,
                              ongoing = Some True\<rparr>])
         \<and> (\<forall>x \<in> set ended. ongoing x = None)"
    by (simp add: closed_outage_def)
next
  show "identify_outages [] = Inr []" by (simp add: identify_outages_def)
qed

theorem identify_outages_final_interval_witness:
  "identify_outages [\<lparr>Time = 0, Message = Text ''Pilot Inactive''\<rparr>,
       \<lparr>Time = 600000000000, Message = Text ''Pilot Active''\<rparr>,
       \<lparr>Time = 700000000000, Message = Text ''Pilot Inactive''\<rparr>,
       \<lparr>Time = 900000000000, Message = Text ''Heartbeat''\<rparr>]
   = Inr [\<lparr>start = 0, end_time = 600000000000, duration = 600000000000,
            duration_minutes = 10, ongoing = None\<rparr>,
          \<lparr>start = 700000000000, end_time = 900000000000, duration = 200000000000,
            duration_minutes = 10 / 3, ongoing = Some True\<rparr>]"
  using identify_outages_final_interval[of "[\<lparr>Time = 0, Message = Text ''Pilot Inactive''\<rparr>,
       \<lparr>Time = 600000000000, Message = Text ''Pilot Active''\<rparr>,
       \<lparr>Time = 700000000000, Message = Text ''Pilot Inactive''\<rparr>,
       \<lparr>Time = 900000000000, Message = Text ''Heartbeat''\<rparr>]"
       "[\<lparr>start = 0, end_time = 600000000000, duration = 600000000000,
            duration_minutes = 10, ongoing = None\<rparr>]" "Some 700000000000"]
    scan_rows_example
  by (simp add: total_seconds_def)

text \<open>
  Claim C8, amended. \<^verbatim>\<open>identify_outages\<close> returns the outages closed by the loop,
  followed by one final interval exactly when the loop ends with \<^verbatim>\<open>in_outage\<close> set.
  Every interval carries \<^verbatim>\<open>start\<close>, \<^verbatim>\<open>end\<close>, \<^verbatim>\<open>duration\<close> and
  \<^verbatim>\<open>duration_minutes\<close>. The key \<^verbatim>\<open>ongoing\<close> is present, with the value true, on the
  final interval only: an interval closed by a \<^verbatim>\<open>Pilot Active\<close> row has no such key.
\<close>

theorem identify_outages_ongoing_key:
  "\<exists>ended io os final.
      scan_rows ([], False, None) df = Inr (ended, io, os)
      \<and> identify_outages df = Inr (ended @ final)
      \<and> (\<forall>x \<in> set ended. ongoing x = None \<and> duration x = end_time x - start x
              \<and> duration_minutes x = total_seconds (duration x) / 60)
      \<and> (if io then \<exists>x. final = [x] \<and> ongoing x = Some True
              \<and> end_time x = Time (last df) \<and> duration x = end_time x - start x
              \<and> duration_minutes x = total_seconds (duration x) / 60
          else final = [])"
proof -
  from scan_rows_init_ok[of df] obtain ended io os where
    run: "scan_rows ([], False, None) df = Inr (ended, io, os)"
    and os: "io \<longrightarrow> os \<noteq> None"
    and cl: "\<forall>x \<in> set ended. closed_outage x" by blast
  from cl have cl': "\<forall>x \<in> set ended. ongoing x = None \<and> duration x = end_time x - start x
              \<and> duration_minutes x = total_seconds (duration x) / 60"
    by (simp add: closed_outage_def)
  show ?thesis
  proof (cases io)
    case False
    with run have "identify_outages df = Inr (ended @ [])"
      by (simp add: identify_outages_def)
    with run cl' False show ?thesis by force
  next
    case True
    with os obtain st where st: "os = Some st" by auto
    from run True obtain r rest where "df = r # rest" by (cases df) auto
    with run True st have "identify_outages df =
             Inr (ended @ [\<lparr>start = st, end_time = Time (last df),
                              duration = Time (last df) - st,
                              duration_minutes = total_seconds (Time (last df) - st) / 60,
                              ongoing = Some True\<rparr>])"
      by (simp add: identify_outages_def Let_def)
    with run cl' True show ?thesis by force
  qed
qed

theorem identify_outages_ongoing_key_witness:
  "\<exists>ended io os final.
      scan_rows ([], False, None) [\<lparr>Time = 0, Message = Text ''Pilot Inactive''\<rparr>,
           \<lparr>Time = 600000000000, Message = Text ''Pilot Active''\<rparr>] = Inr (ended, io, os)
      \<and> identify_outages [\<lparr>Time = 0, Message = Text ''Pilot Inactive''\<rparr>,
           \<lparr>Time = 600000000000, Message = Text ''Pilot Active''\<rparr>] = Inr (ended @ final)"
  using identify_outages_ongoing_key[of "[\<lparr>Time = 0, Message = Text ''Pilot Inactive''\<rparr>,
           \<lparr>Time = 600000000000, Message = Text ''Pilot Active''\<rparr>]"]
  by blast

text \<open>
  The claim as first stated asks for a boolean \<^verbatim>\<open>ongoing\<close> on every interval, false on
  those closed by \<^verbatim>\<open>Pilot Active\<close>. The interval of ten minutes below is closed that way
  and has no key \<^verbatim>\<open>ongoing\<close>.
\<close>

theorem identify_outages_ongoing_key_counterexample:
  "identify_outages [\<lparr>Time = 0, Message = Text ''Pilot Inactive''\<rparr>,
       \<lparr>Time = 600000000000, Message = Text ''Pilot Active''\<rparr>]
   = Inr [\<lparr>start = 0, end_time = 600000000000, duration = 600000000000,
            duration_minutes = 10, ongoing = None\<rparr>]"
  by (simp add: identify_outages_def startswith_def strip_def isspace_def total_seconds_def)

section \<open>Availability and compliance\<close>

lemma window_total_minutes_nonzero:
  "first_day md \<noteq> last_day md \<Longrightarrow> total_seconds (last_day md - first_day md) / 60 \<noteq> 0"
  by (simp add: total_seconds_def)

lemma calculate_availability_nondegenerate:
  assumes "first_day md \<noteq> last_day md"
  shows "calculate_availability df outs md =
           ((window_total_minutes md - sum_list (map duration_minutes outs))
              / window_total_minutes md) * 100"
  using window_total_minutes_nonzero[OF assms]
  by (simp add: calculate_availability_def calculate_availability_try_def truediv_def
      window_total_minutes_def Let_def)

lemma calculate_availability_degenerate:
  assumes "first_day md = last_day md"
  shows "calculate_availability_try df outs md = Inl ZeroDivisionError"
    and "calculate_availability df outs md = 0"
  using assms
  by (simp_all add: calculate_availability_def calculate_availability_try_def truediv_def
      total_seconds_def Let_def)

lemma check_epa_compliance_issues:
  "issues (check_epa_compliance outs a) = count_rule outs @ duration_rule outs @ availability_rule a"
proof -
  have "(filter (\<lambda>x. duration_minutes x > 60) outs \<noteq> []) = (\<exists>x \<in> set outs. duration_minutes x > 60)"
    by (simp add: filter_empty_conv)
  then show ?thesis
    by (simp add: check_epa_compliance_def count_rule_def duration_rule_def availability_rule_def
        MAX_OUTAGES_PER_MONTH_def MAX_OUTAGE_DURATION_MINUTES_def MIN_AVAILABILITY_PERCENT_def
        Let_def)
qed

lemma check_epa_compliance_compliant:
  "compliant (check_epa_compliance outs a) = (issues (check_epa_compliance outs a) = [])"
  by (simp add: check_epa_compliance_def Let_def)

lemma check_epa_compliance_status:
  "status (check_epa_compliance outs a) =
     (if issues (check_epa_compliance outs a) = [] then ''COMPLIANT'' else ''NON-COMPLIANT'')"
  by (simp add: check_epa_compliance_def Let_def)

text \<open>
  Claim C1, amended. For a window whose \<^verbatim>\<open>last_day\<close> is strictly after its
  \<^verbatim>\<open>first_day\<close>, \<^verbatim>\<open>calculate_availability\<close> returns the value of the availability
  contract: the window's span in minutes less the sum of the outages'
  \<^verbatim>\<open>duration_minutes\<close>, over the span, times 100. The data frame it is given plays no
  part in the result. For a window whose \<^verbatim>\<open>first_day\<close> equals its \<^verbatim>\<open>last_day\<close> the
  contract has no value and \<^verbatim>\<open>calculate_availability\<close> returns 0.
\<close>

theorem calculate_availability_contract:
  "(first_day md < last_day md \<longrightarrow>
      availability_contract (window_total_minutes md) (sum_list (map duration_minutes outs))
        = Some (calculate_availability df outs md)
      \<and> calculate_availability df outs md =
          ((total_seconds (last_day md - first_day md) / 60 - sum_list (map duration_minutes outs))
             / (total_seconds (last_day md - first_day md) / 60)) * 100
      \<and> calculate_availability df' outs md = calculate_availability df outs md)
   \<and> (first_day md = last_day md \<longrightarrow>
      availability_contract (window_total_minutes md) (sum_list (map duration_minutes outs))
        = None
      \<and> calculate_availability df outs md = 0)"
proof (intro conjI impI)
  assume strict: "first_day md < last_day md"
  then have ne: "first_day md \<noteq> last_day md" by simp
  from window_total_minutes_nonzero[OF ne] have nz: "window_total_minutes md \<noteq> 0"
    by (simp add: window_total_minutes_def)
  from nz show "availability_contract (window_total_minutes md)
        (sum_list (map duration_minutes outs)) = Some (calculate_availability df outs md)"
    using calculate_availability_nondegenerate[OF ne, of df outs]
    by (simp add: availability_contract_def)
  show "calculate_availability df outs md =
          ((total_seconds (last_day md - first_day md) / 60 - sum_list (map duration_minutes outs))
             / (total_seconds (last_day md - first_day md) / 60)) * 100"
    using calculate_availability_nondegenerate[OF ne, of df outs]
    by (simp add: window_total_minutes_def)
  show "calculate_availability df' outs md = calculate_availability df outs md"
    using calculate_availability_nondegenerate[OF ne, of df outs]
      calculate_availability_nondegenerate[OF ne, of df' outs]
    by simp
next
  assume same: "first_day md = last_day md"
  then show "availability_contract (window_total_minutes md)
        (sum_list (map duration_minutes outs)) = None"
    by (simp add: availability_contract_def window_total_minutes_def total_seconds_def)
  from same show "calculate_availability df outs md = 0"
    by (rule calculate_availability_degenerate(2))
qed

theorem calculate_availability_contract_witness:
  "(0::int) < 2592000000000000
   \<and> calculate_availability []
        [\<lparr>start = 0, end_time = 600000000000, duration = 600000000000,
          duration_minutes = 10, ongoing = None\<rparr>]
        \<lparr>first_day = 0, last_day = 2592000000000000\<rparr> = 4319000 / 43200
   \<and> calculate_availability []
        [\<lparr>start = 0, end_time = 600000000000, duration = 600000000000,
          duration_minutes = 10, ongoing = None\<rparr>]
        \<lparr>first_day = 86400000000000, last_day = 86400000000000\<rparr> = 0"
  using calculate_availability_contract[of "\<lparr>first_day = 0, last_day = 2592000000000000\<rparr>"
      "[\<lparr>start = 0, end_time = 600000000000, duration = 600000000000,
          duration_minutes = 10, ongoing = None\<rparr>]" "[]" "[]"]
    calculate_availability_contract[of
      "\<lparr>first_day = 86400000000000, last_day = 86400000000000\<rparr>"
      "[\<lparr>start = 0, end_time = 600000000000, duration = 600000000000,
          duration_minutes = 10, ongoing = None\<rparr>]" "[]" "[]"]
  by (simp add: total_seconds_def)

text \<open>
  The claim as first stated covers the window with \<^verbatim>\<open>first_day\<close> equal to
  \<^verbatim>\<open>last_day\<close>. There the contract has no value, and the code returns \<^verbatim>\<open>0.0\<close> from
  its \<^verbatim>\<open>except\<close> clause.
\<close>

theorem calculate_availability_contract_counterexample:
  "first_day \<lparr>first_day = 0, last_day = 0\<rparr> \<le> last_day \<lparr>first_day = 0, last_day = 0\<rparr>
   \<and> availability_contract (window_total_minutes \<lparr>first_day = 0, last_day = 0\<rparr>)
        (sum_list (map duration_minutes []))
      \<noteq> Some (calculate_availability [] [] \<lparr>first_day = 0, last_day = 0\<rparr>)"
  by (simp add: availability_contract_def window_total_minutes_def total_seconds_def)

text \<open>
  Claim C4. \<^verbatim>\<open>check_epa_compliance\<close> evaluates the three rules one after the other,
  whatever the outcome of the others: its issue list is the message of the count rule if
  violated, then that of the duration rule if violated, then that of the availability rule
  if violated, so it has one message for each violated rule. It is compliant exactly when
  the issue list is empty, that is when no rule is violated.
\<close>

theorem check_epa_compliance_all_rules:
  "issues (check_epa_compliance outs a) = count_rule outs @ duration_rule outs @ availability_rule a
   \<and> length (issues (check_epa_compliance outs a)) =
       (if length outs > 10 then 1 else 0)
       + (if \<exists>x \<in> set outs. duration_minutes x > 60 then 1 else 0)
       + (if a < 99 then 1 else 0)
   \<and> compliant (check_epa_compliance outs a) = (issues (check_epa_compliance outs a) = [])
   \<and> compliant (check_epa_compliance outs a) =
       (\<not> length outs > 10 \<and> \<not> (\<exists>x \<in> set outs. duration_minutes x > 60) \<and> \<not> a < 99)"
  unfolding check_epa_compliance_compliant check_epa_compliance_issues
  by (simp add: count_rule_def duration_rule_def availability_rule_def)

theorem check_epa_compliance_all_rules_witness:
  "issues (check_epa_compliance
      [\<lparr>start = 0, end_time = 5400000000000, duration = 5400000000000,
        duration_minutes = 90, ongoing = None\<rparr>] 95)
   = [[Lit ''Found '', FInt 1, Lit '' outage(s) exceeding '', FInt 60, Lit '' minutes''],
      [Lit ''Availability below minimum: '', FFloat2 95, Lit ''% < '', FFloat 99, Lit ''%'']]
   \<and> compliant (check_epa_compliance
      [\<lparr>start = 0, end_time = 5400000000000, duration = 5400000000000,
        duration_minutes = 90, ongoing = None\<rparr>] 95) = False"
  using check_epa_compliance_all_rules[of
      "[\<lparr>start = 0, end_time = 5400000000000, duration = 5400000000000,
        duration_minutes = 90, ongoing = None\<rparr>]" 95]
  by (simp add: count_rule_def duration_rule_def availability_rule_def)

text \<open>
  Claim C10. The three comparisons are strict. With exactly 10 outages the count rule
  adds no issue; with every outage of exactly 60 minutes the duration rule adds none; with
  an availability of exactly 99.0 the availability rule adds none. On all three boundaries
  at once the issue list is empty and the status is \<^verbatim>\<open>COMPLIANT\<close>.
\<close>

theorem check_epa_compliance_boundaries:
  "(length outs = 10 \<longrightarrow>
      issues (check_epa_compliance outs a) = duration_rule outs @ availability_rule a)
   \<and> ((\<forall>x \<in> set outs. duration_minutes x = 60) \<longrightarrow>
      issues (check_epa_compliance outs a) = count_rule outs @ availability_rule a)
   \<and> (a = 99 \<longrightarrow>
      issues (check_epa_compliance outs a) = count_rule outs @ duration_rule outs)
   \<and> (length outs = 10 \<and> (\<forall>x \<in> set outs. duration_minutes x = 60) \<and> a = 99 \<longrightarrow>
      issues (check_epa_compliance outs a) = []
      \<and> compliant (check_epa_compliance outs a)
      \<and> status (check_epa_compliance outs a) = ''COMPLIANT'')"
  unfolding check_epa_compliance_compliant check_epa_compliance_status check_epa_compliance_issues
  by (auto simp: count_rule_def duration_rule_def availability_rule_def)

theorem check_epa_compliance_boundaries_witness:
  "length (replicate 10 \<lparr>start = 0, end_time = 3600000000000, duration = 3600000000000,
             duration_minutes = 60, ongoing = None\<rparr>) = 10
   \<and> issues (check_epa_compliance
        (replicate 10 \<lparr>start = 0, end_time = 3600000000000, duration = 3600000000000,
             duration_minutes = 60, ongoing = None\<rparr>) 99) = []
   \<and> compliant (check_epa_compliance
        (replicate 10 \<lparr>start = 0, end_time = 3600000000000, duration = 3600000000000,
             duration_minutes = 60, ongoing = None\<rparr>) 99)
   \<and> status (check_epa_compliance
        (replicate 10 \<lparr>start = 0, end_time = 3600000000000, duration = 3600000000000,
             duration_minutes = 60, ongoing = None\<rparr>) 99) = ''COMPLIANT''"
  using check_epa_compliance_boundaries[of
      "replicate 10 \<lparr>start = 0, end_time = 3600000000000, duration = 3600000000000,
             duration_minutes = 60, ongoing = None\<rparr>" 99]
  by (simp add: count_rule_def duration_rule_def availability_rule_def)

section \<open>The analysis pipeline\<close>

lemma identify_outages_returns: "\<exists>outs. identify_outages df = Inr outs"
proof -
  from scan_rows_init_ok[of df] obtain ended io os where
    run: "scan_rows ([], False, None) df = Inr (ended, io, os)" by blast
  show ?thesis
  proof (cases "io \<and> os \<noteq> None")
    case True
    with run obtain r rest where "df = r # rest" by (cases df) auto
    with run True show ?thesis by (auto simp: identify_outages_def Let_def)
  next
    case False
    with run show ?thesis by (auto simp: identify_outages_def)
  qed
qed

lemma window_filter: "(\<lambda>r. first_day md \<le> Time r \<and> Time r \<le> last_day md) = in_window md"
  by (simp add: in_window_def fun_eq_iff)

lemma analyze_data_loaded:
  assumes "''Time'' \<in> set (columns df)" and "''Message'' \<in> set (columns df)"
    and "str_accessor (map Message (rows df))
           (map Message (filter (in_window md) (sort_values (rows df)))) = Inr ()"
    and "identify_outages (filter (in_window md) (sort_values (rows df))) = Inr outs"
  shows "analyze_data sort_values (Inr (Some df)) dev md =
     Success \<lparr>data = filter (in_window md) (sort_values (rows df)),
              outages = outs,
              summary =
                \<lparr>total_outages = length outs,
                 total_outage_minutes = sum_list (map duration_minutes outs),
                 availability_percent =
                   calculate_availability (filter (in_window md) (sort_values (rows df))) outs md,
                 epa_compliance =
                   status (check_epa_compliance outs
                     (calculate_availability (filter (in_window md) (sort_values (rows df))) outs md)),
                 compliance_details =
                   check_epa_compliance outs
                     (calculate_availability (filter (in_window md) (sort_values (rows df))) outs md),
                 statistics = calculate_statistics outs\<rparr>,
              device = dev, month_data = md\<rparr>"
  using assms unfolding analyze_data_def window_filter by (simp add: Let_def)

lemma analyze_data_refused:
  assumes "''Time'' \<in> set (columns df)" and "''Message'' \<in> set (columns df)"
    and "str_accessor (map Message (rows df))
           (map Message (filter (in_window md) (sort_values (rows df)))) = Inl e"
  shows "analyze_data sort_values (Inr (Some df)) dev md =
           Failure \<lparr>error = [FExc e], details = Some e\<rparr>"
  using assms unfolding analyze_data_def window_filter by (simp add: Let_def)

lemma str_accessor_numeric:
  assumes "column_read \<noteq> []" and "\<forall>c \<in> set column_read. \<not> is_text c"
  shows "str_accessor column_read column_left = Inl AttributeError"
  using assms by (simp add: str_accessor_def)

lemma str_accessor_text:
  assumes "\<forall>c \<in> set column_read. is_text c" and "\<forall>c \<in> set column_left. is_text c"
  shows "str_accessor column_read column_left = Inr ()"
proof (cases column_read)
  case Nil
  with assms(2) show ?thesis by (auto simp: str_accessor_def)
next
  case (Cons c cs)
  with assms show ?thesis by (auto simp: str_accessor_def)
qed

lemma sorts_ascending_stable_sort: "sorts_ascending stable_sort"
  by (simp add: sorts_ascending_def stable_sort_def)

lemma analyze_data_quiet:
  assumes "''Time'' \<in> set (columns df)" and "''Message'' \<in> set (columns df)"
    and "first_day md < last_day md"
    and "str_accessor (map Message (rows df))
           (map Message (filter (in_window md) (sort_values (rows df)))) = Inr ()"
    and "\<forall>r \<in> set (filter (in_window md) (sort_values (rows df))).
            \<not> str_contains ''Pilot Inactive'' (py_str (Message r))
            \<and> \<not> str_contains ''Pilot Active'' (py_str (Message r))"
  shows "analyze_data sort_values (Inr (Some df)) dev md =
     Success \<lparr>data = filter (in_window md) (sort_values (rows df)),
              outages = [],
              summary =
                \<lparr>total_outages = 0,
                 total_outage_minutes = 0,
                 availability_percent = 100,
                 epa_compliance = ''COMPLIANT'',
                 compliance_details = \<lparr>compliant = True, status = ''COMPLIANT'', issues = []\<rparr>,
                 statistics =
                   \<lparr>mean_duration_minutes = 0, median_duration_minutes = 0,
                    max_duration_minutes = 0, min_duration_minutes = 0,
                    std_duration_minutes = 0\<rparr>\<rparr>,
              device = dev, month_data = md\<rparr>"
proof -
  have none: "identify_outages (filter (in_window md) (sort_values (rows df))) = Inr []"
    using assms(5) by (rule identify_outages_quiet)
  from assms(3) have ne: "first_day md \<noteq> last_day md" by simp
  have av: "calculate_availability (filter (in_window md) (sort_values (rows df))) [] md = 100"
    using window_total_minutes_nonzero[OF ne]
    unfolding calculate_availability_nondegenerate[OF ne]
    by (simp add: window_total_minutes_def)
  have co: "check_epa_compliance [] 100 = \<lparr>compliant = True, status = ''COMPLIANT'', issues = []\<rparr>"
    by (simp add: check_epa_compliance_def MAX_OUTAGES_PER_MONTH_def
        MIN_AVAILABILITY_PERCENT_def Let_def)
  have st: "calculate_statistics [] =
      \<lparr>mean_duration_minutes = 0, median_duration_minutes = 0,
       max_duration_minutes = 0, min_duration_minutes = 0, std_duration_minutes = 0\<rparr>"
    by (simp add: calculate_statistics_def)
  show ?thesis
    unfolding analyze_data_loaded[where sort_values = sort_values and outs = "[]",
        OF assms(1) assms(2) assms(4) none] av co st
    by simp
qed

lemma analyze_data_quiet_example:
  "analyze_data stable_sort
     (Inr (Some \<lparr>columns = [''Time'', ''Message'', ''Zone''],
                  rows = [\<lparr>Time = 1200000000000, Message = Text ''Heartbeat''\<rparr>,
                          \<lparr>Time = 2600000000000000, Message = Text ''Pilot Inactive''\<rparr>,
                          \<lparr>Time = 600000000000, Message = Text ''Signal restored''\<rparr>]\<rparr>))
     ''device'' \<lparr>first_day = 0, last_day = 2592000000000000\<rparr>
   = Success \<lparr>data = [\<lparr>Time = 600000000000, Message = Text ''Signal restored''\<rparr>,
                       \<lparr>Time = 1200000000000, Message = Text ''Heartbeat''\<rparr>],
              outages = [],
              summary =
                \<lparr>total_outages = 0,
                 total_outage_minutes = 0,
                 availability_percent = 100,
                 epa_compliance = ''COMPLIANT'',
                 compliance_details = \<lparr>compliant = True, status = ''COMPLIANT'', issues = []\<rparr>,
                 statistics =
                   \<lparr>mean_duration_minutes = 0, median_duration_minutes = 0,
                    max_duration_minutes = 0, min_duration_minutes = 0,
                    std_duration_minutes = 0\<rparr>\<rparr>,
              device = ''device'',
              month_data = \<lparr>first_day = 0, last_day = 2592000000000000\<rparr>\<rparr>"
proof -
  have f: "filter (in_window \<lparr>first_day = 0, last_day = 2592000000000000\<rparr>)
       (stable_sort [\<lparr>Time = 1200000000000, Message = Text ''Heartbeat''\<rparr>,
                     \<lparr>Time = 2600000000000000, Message = Text ''Pilot Inactive''\<rparr>,
                     \<lparr>Time = 600000000000, Message = Text ''Signal restored''\<rparr>])
     = [\<lparr>Time = 600000000000, Message = Text ''Signal restored''\<rparr>,
        \<lparr>Time = 1200000000000, Message = Text ''Heartbeat''\<rparr>]"
    by (simp add: stable_sort_def in_window_def)
  show ?thesis
    using analyze_data_quiet[of
        "\<lparr>columns = [''Time'', ''Message'', ''Zone''],
          rows = [\<lparr>Time = 1200000000000, Message = Text ''Heartbeat''\<rparr>,
                  \<lparr>Time = 2600000000000000, Message = Text ''Pilot Inactive''\<rparr>,
                  \<lparr>Time = 600000000000, Message = Text ''Signal restored''\<rparr>]\<rparr>"
        "\<lparr>first_day = 0, last_day = 2592000000000000\<rparr>" stable_sort "''device''"]
    by (simp add: f startswith_def str_accessor_def is_text_def)
qed

text \<open>
  On rows whose \<^verbatim>\<open>Time\<close> values are all distinct, every sort that keeps the library's
  promise returns what the insertion sort returns.
\<close>

lemma sorts_ascending_distinct:
  assumes "sorts_ascending sort_values" and "distinct (map Time rs)"
  shows "sort_values rs = stable_sort rs"
proof -
  from assms(1) have srt: "sorted (map Time (sort_values rs))"
    and perm: "mset (sort_values rs) = mset rs"
    by (simp_all add: sorts_ascending_def)
  have srt': "sorted (map Time (stable_sort rs))" and perm': "mset (stable_sort rs) = mset rs"
    by (simp_all add: stable_sort_def)
  from perm have keys: "mset (map Time (sort_values rs)) = mset (map Time rs)" by simp
  from perm' have keys': "mset (map Time (stable_sort rs)) = mset (map Time rs)" by simp
  from keys assms(2) have d: "distinct (map Time (sort_values rs))"
    by (metis mset_eq_imp_distinct_iff)
  from keys' assms(2) have d': "distinct (map Time (stable_sort rs))"
    by (metis mset_eq_imp_distinct_iff)
  from keys keys' have "set (map Time (sort_values rs)) = set (map Time (stable_sort rs))"
    by (metis mset_eq_setD)
  with srt srt' d d' have same: "map Time (sort_values rs) = map Time (stable_sort rs)"
    by (metis sorted_distinct_set_unique)
  from perm perm' have sets: "set (sort_values rs) = set rs" "set (stable_sort rs) = set rs"
    by (metis mset_eq_setD)+
  from assms(2) have "inj_on Time (set rs)" by (simp add: distinct_map)
  with sets have "inj_on Time (set (sort_values rs) \<union> set (stable_sort rs))" by simp
  with same show ?thesis by (simp add: inj_on_map_eq_map)
qed

text \<open>
  On claim C7. The analysis sorts the rows and filters them to the window afterwards: with
  a sort that keeps the library's promise, the data it returns are the rows of the sorted
  frame that lie in the window, in ascending order of \<^verbatim>\<open>Time\<close>, and they are the rows
  of the input that lie in the window, each as often as there. The analysis adds no
  ordering of its own: rows with equal \<^verbatim>\<open>Time\<close> come in the order the library's sort
  leaves them, and the call asks for no stable sort kind.
\<close>

lemma analyze_data_sorts_then_filters:
  assumes "sorts_ascending sort_values"
    and "''Time'' \<in> set (columns df)" and "''Message'' \<in> set (columns df)"
    and "str_accessor (map Message (rows df))
           (map Message (filter (in_window md) (sort_values (rows df)))) = Inr ()"
  shows "\<exists>a. analyze_data sort_values (Inr (Some df)) dev md = Success a
           \<and> sorted (map Time (sort_values (rows df)))
           \<and> data a = filter (in_window md) (sort_values (rows df))
           \<and> sorted (map Time (data a))
           \<and> mset (data a) = mset (filter (in_window md) (rows df))"
proof -
  obtain found where found: "identify_outages (filter (in_window md) (sort_values (rows df))) = Inr found"
    using identify_outages_returns by blast
  from assms(1) have srt: "sorted (map Time (sort_values (rows df)))"
    and perm: "mset (sort_values (rows df)) = mset (rows df)"
    by (simp_all add: sorts_ascending_def)
  from srt have "sorted (map Time (filter (in_window md) (sort_values (rows df))))"
    by (rule sorted_filter)
  moreover from perm have "mset (filter (in_window md) (sort_values (rows df)))
      = mset (filter (in_window md) (rows df))"
    by (metis mset_filter)
  ultimately show ?thesis
    using srt analyze_data_loaded[where sort_values = sort_values and outs = found and dev = dev,
        OF assms(2) assms(3) assms(4) found]
    by simp
qed




text \<open>
  Claim C5, where the code departs from it. A frame whose \<^verbatim>\<open>Message\<close> column was read
  with at least one row and without any string (blank cells or numbers only) has no status
  message to find, and the claim has its analysis succeed with no outages. The analysis
  fails instead: the \<^verbatim>\<open>.str\<close> accessor raises \<^verbatim>\<open>AttributeError\<close> inside the \<^verbatim>\<open>try\<close>
  block, before the outages are looked for, whatever the window and the sort. On a frame
  whose \<^verbatim>\<open>Message\<close> column the accessor takes, the analysis does what the claim says
  (lemma \<open>analyze_data_quiet\<close>).
\<close>

theorem analyze_data_message_column_without_text:
  assumes "''Time'' \<in> set (columns df)" and "''Message'' \<in> set (columns df)"
    and "rows df \<noteq> []"
    and "\<forall>r \<in> set (rows df). \<not> is_text (Message r)"
  shows "analyze_data sort_values (Inr (Some df)) dev md =
           Failure \<lparr>error = [FExc AttributeError], details = Some AttributeError\<rparr>"
proof -
  from assms(3) have "map Message (rows df) \<noteq> []" by simp
  moreover from assms(4) have "\<forall>c \<in> set (map Message (rows df)). \<not> is_text c" by simp
  ultimately have "str_accessor (map Message (rows df))
      (map Message (filter (in_window md) (sort_values (rows df)))) = Inl AttributeError"
    by (rule str_accessor_numeric)
  with assms(1) assms(2) show ?thesis by (rule analyze_data_refused)
qed

theorem analyze_data_message_column_without_text_witness:
  "first_day \<lparr>first_day = 0, last_day = 2592000000000000\<rparr>
     < last_day \<lparr>first_day = 0, last_day = 2592000000000000\<rparr>
   \<and> list_all (\<lambda>r. \<not> str_contains ''Pilot Inactive'' (py_str (Message r))
                   \<and> \<not> str_contains ''Pilot Active'' (py_str (Message r)))
        [\<lparr>Time = 600000000000, Message = NaN\<rparr>, \<lparr>Time = 1200000000000, Message = NaN\<rparr>]
   \<and> analyze_data stable_sort
        (Inr (Some \<lparr>columns = [''Time'', ''Message''],
                     rows = [\<lparr>Time = 600000000000, Message = NaN\<rparr>,
                             \<lparr>Time = 1200000000000, Message = NaN\<rparr>]\<rparr>))
        ''device'' \<lparr>first_day = 0, last_day = 2592000000000000\<rparr>
      = Failure \<lparr>error = [FExc AttributeError], details = Some AttributeError\<rparr>"
  using analyze_data_message_column_without_text[of
      "\<lparr>columns = [''Time'', ''Message''],
        rows = [\<lparr>Time = 600000000000, Message = NaN\<rparr>,
                \<lparr>Time = 1200000000000, Message = NaN\<rparr>]\<rparr>"
      stable_sort "''device''" "\<lparr>first_day = 0, last_day = 2592000000000000\<rparr>"]
  by (simp add: is_text_def startswith_def)

text \<open>
  Claim C9. On a frame without the column \<^verbatim>\<open>Time\<close> or without the column
  \<^verbatim>\<open>Message\<close>, \<^verbatim>\<open>analyze_data\<close> returns a failure, never a success. Its message
  names the two expected columns and ends with the list of the frame's own columns.
\<close>

theorem analyze_data_missing_column:
  assumes "''Time'' \<notin> set (columns df) \<or> ''Message'' \<notin> set (columns df)"
  shows \<open>analyze_data sort_values (Inr (Some df)) dev md =
           Failure \<lparr>error = [Lit ''Required columns not found. Expected "Time" and "Message", got: '',
                              FColumns (columns df)],
                    details = None\<rparr>
         \<and> (\<forall>a. analyze_data sort_values (Inr (Some df)) dev md \<noteq> Success a)\<close>
  using assms by (auto simp: analyze_data_def)

theorem analyze_data_missing_column_witness:
  \<open>analyze_data stable_sort
     (Inr (Some \<lparr>columns = [''Time'', ''Status''],
                  rows = [\<lparr>Time = 500, Message = Text ''Pilot Inactive''\<rparr>]\<rparr>))
     ''device'' \<lparr>first_day = 0, last_day = 1000\<rparr>
   = Failure \<lparr>error = [Lit ''Required columns not found. Expected "Time" and "Message", got: '',
                        FColumns [''Time'', ''Status'']],
              details = None\<rparr>\<close>
  using analyze_data_missing_column[of
      "\<lparr>columns = [''Time'', ''Status''], rows = [\<lparr>Time = 500, Message = Text ''Pilot Inactive''\<rparr>]\<rparr>"
      stable_sort "''device''" "\<lparr>first_day = 0, last_day = 1000\<rparr>"]
  by simp

end
